theory Spec2Isabelle
  imports Main
begin

section \<open>JavaScript values used by blockchain.js\<close>

text \<open>
  The Blockchain class of \<^verbatim>\<open>src/blockchain.js\<close> works on strings, on numbers that are
  always integers (clock readings in milliseconds, heights, lengths) and on \<^verbatim>\<open>NaN\<close>,
  which \<^verbatim>\<open>parseInt\<close> hands back for text that does not start with a number. A number
  is modelled as \<open>int option\<close> where it can be \<^verbatim>\<open>NaN\<close> (\<open>None\<close>) and as \<open>int\<close>
  where it cannot. The integers are unbounded: the rounding of doubles beyond \<open>2^53\<close> is
  not modelled. \<^verbatim>\<open>null\<close> and \<^verbatim>\<open>undefined\<close> are both \<open>None\<close> of an option type.
  A string is the sequence of bytes of its UTF-8 encoding: one character for each ASCII
  code unit, two or three for the other code points the class can meet in white space.
  The strings whose length or last characters the class reads (digests, decimal
  renderings) are ASCII.
\<close>

subsection \<open>Number.prototype.toString on integers\<close>

definition digit_char :: "nat \<Rightarrow> char" where
  "digit_char d = ''0123456789'' ! d"

function digits :: "nat \<Rightarrow> string" where
  "digits n = (if n < 10 then [digit_char n] else digits (n div 10) @ [digit_char (n mod 10)])"
  by pat_completeness auto
termination
  by (relation "measure id") auto

declare digits.simps [simp del]

definition toString :: "int \<Rightarrow> string" where
  "toString i = (if i < 0 then CHR ''-'' # digits (nat (- i)) else digits (nat i))"

subsection \<open>String.prototype.slice(0, -3) and split(':')\<close>

text \<open>\<^verbatim>\<open>s.slice(0, -3)\<close> keeps the first \<open>max (length s - 3) 0\<close> characters.\<close>

definition slice_0_m3 :: "string \<Rightarrow> string" where
  "slice_0_m3 s = take (length s - 3) s"

fun split :: "char \<Rightarrow> string \<Rightarrow> string list" where
  "split c [] = [[]]"
| "split c (x # xs) =
     (if x = c then [] # split c xs
      else (case split c xs of [] \<Rightarrow> [[x]] | y # ys \<Rightarrow> (x # y) # ys))"

text \<open>Reading an array at an index: \<^verbatim>\<open>undefined\<close> outside the array.\<close>

definition at_index :: "'a list \<Rightarrow> int \<Rightarrow> 'a option" where
  "at_index xs i = (if 0 \<le> i \<and> i < int (length xs) then Some (xs ! nat i) else None)"

subsection \<open>parseInt with no radix\<close>

text \<open>
  \<^verbatim>\<open>parseInt\<close> skips leading white space, reads a sign, takes the prefix \<^verbatim>\<open>0x\<close> or
  \<^verbatim>\<open>0X\<close> as radix 16, reads the longest run of digits of the radix and ignores what
  follows; without a digit the result is \<^verbatim>\<open>NaN\<close>. \<^verbatim>\<open>parseInt(undefined)\<close> reads
  the text \<^verbatim>\<open>undefined\<close>, which has no digit.

  The white space skipped is the ECMAScript set of white space and line terminators:
  the six ASCII characters U+0009 to U+000D and U+0020, the two bytes of U+00A0, and the
  three bytes of U+1680, U+2000 to U+200A, U+2028, U+2029, U+202F, U+205F, U+3000 and
  U+FEFF.
\<close>

definition isWhiteSpace :: "char \<Rightarrow> bool" where
  "isWhiteSpace c = (c \<in> set [CHR '' '', CHR 0x09, CHR 0x0A, CHR 0x0B, CHR 0x0C, CHR 0x0D])"

definition isWhiteSpace2 :: "char \<Rightarrow> char \<Rightarrow> bool" where
  "isWhiteSpace2 a b = (a = CHR 0xC2 \<and> b = CHR 0xA0)"

definition isWhiteSpace3 :: "char \<Rightarrow> char \<Rightarrow> char \<Rightarrow> bool" where
  "isWhiteSpace3 a b c =
     ((a = CHR 0xE1 \<and> b = CHR 0x9A \<and> c = CHR 0x80) \<or>
      (a = CHR 0xE2 \<and> b = CHR 0x80 \<and>
         c \<in> set [CHR 0x80, CHR 0x81, CHR 0x82, CHR 0x83, CHR 0x84, CHR 0x85, CHR 0x86, CHR 0x87,
                  CHR 0x88, CHR 0x89, CHR 0x8A, CHR 0xA8, CHR 0xA9, CHR 0xAF]) \<or>
      (a = CHR 0xE2 \<and> b = CHR 0x81 \<and> c = CHR 0x9F) \<or>
      (a = CHR 0xE3 \<and> b = CHR 0x80 \<and> c = CHR 0x80) \<or>
      (a = CHR 0xEF \<and> b = CHR 0xBB \<and> c = CHR 0xBF))"

fun trimStart :: "string \<Rightarrow> string" where
  "trimStart [] = []"
| "trimStart [a] = (if isWhiteSpace a then [] else [a])"
| "trimStart [a, b] =
     (if isWhiteSpace a then trimStart [b] else if isWhiteSpace2 a b then [] else [a, b])"
| "trimStart (a # b # c # s) =
     (if isWhiteSpace a then trimStart (b # c # s)
      else if isWhiteSpace2 a b then trimStart (c # s)
      else if isWhiteSpace3 a b c then trimStart s
      else a # b # c # s)"

fun index_of :: "char \<Rightarrow> string \<Rightarrow> nat option" where
  "index_of c [] = None"
| "index_of c (x # xs) =
     (if c = x then Some 0 else (case index_of c xs of None \<Rightarrow> None | Some i \<Rightarrow> Some (Suc i)))"

definition digit_value :: "nat \<Rightarrow> char \<Rightarrow> nat option" where
  "digit_value radix c =
     (case (case index_of c ''0123456789abcdef'' of
              None \<Rightarrow> index_of c ''0123456789ABCDEF'' | Some v \<Rightarrow> Some v) of
        None \<Rightarrow> None
      | Some v \<Rightarrow> if v < radix then Some v else None)"

fun read_digits :: "nat \<Rightarrow> string \<Rightarrow> nat option \<Rightarrow> nat option" where
  "read_digits radix [] acc = acc"
| "read_digits radix (c # cs) acc =
     (case digit_value radix c of
        None \<Rightarrow> acc
      | Some v \<Rightarrow> read_digits radix cs (Some ((case acc of None \<Rightarrow> 0 | Some a \<Rightarrow> a) * radix + v)))"

definition parseInt_text :: "string \<Rightarrow> int option" where
  "parseInt_text s =
     (let s1 = trimStart s;
          negative = (s1 \<noteq> [] \<and> hd s1 = CHR ''-'');
          s2 = (if s1 \<noteq> [] \<and> (hd s1 = CHR ''-'' \<or> hd s1 = CHR ''+'') then tl s1 else s1);
          hex = (take 2 s2 = ''0x'' \<or> take 2 s2 = ''0X'');
          s3 = (if hex then drop 2 s2 else s2)
      in (case read_digits (if hex then 16 else 10) s3 None of
            None \<Rightarrow> None
          | Some m \<Rightarrow> Some (if negative then - int m else int m)))"

definition parseInt :: "string option \<Rightarrow> int option" where
  "parseInt x = (case x of None \<Rightarrow> None | Some s \<Rightarrow> parseInt_text s)"

text \<open>Subtraction and the comparison \<^verbatim>\<open>a > b\<close> on numbers that may be \<^verbatim>\<open>NaN\<close>.\<close>

definition js_minus :: "int option \<Rightarrow> int option \<Rightarrow> int option" where
  "js_minus a b = (case a of None \<Rightarrow> None | Some x \<Rightarrow> (case b of None \<Rightarrow> None | Some y \<Rightarrow> Some (x - y)))"

definition js_gt :: "int option \<Rightarrow> int \<Rightarrow> bool" where
  "js_gt a t = (case a of None \<Rightarrow> False | Some x \<Rightarrow> t < x)"


section \<open>Blocks\<close>

text \<open>
  A block object has the fields \<^verbatim>\<open>hash\<close>, \<^verbatim>\<open>height\<close>, \<^verbatim>\<open>body\<close>, \<^verbatim>\<open>time\<close>,
  \<^verbatim>\<open>previousBlockHash\<close> and, once \<^verbatim>\<open>submitStar\<close> has set it, \<^verbatim>\<open>owner\<close>. A missing
  or \<^verbatim>\<open>null\<close> field is \<open>None\<close>. The body holds the payload; its encoding is outside
  the Blockchain class and is kept abstract.
\<close>

record 'd block =
  hash :: "string option"
  height :: int
  body :: 'd
  time :: string
  previousBlockHash :: "string option"
  owner :: "string option"

text \<open>The two object literals handed to the Block constructor:
  \<^verbatim>\<open>{data: 'Genesis Block'}\<close> and \<^verbatim>\<open>{'star': star}\<close>.\<close>

datatype 's bdata = Data string | Star 's

text \<open>
  Modelled from the spec: the constructor of class Block (\<^verbatim>\<open>block.js\<close>, which is not
  among the sources). A new block carries the payload; hash, link and owner are absent,
  height and timestamp are not yet assigned (they are set when the block is sealed).
\<close>

definition Block :: "'d \<Rightarrow> 'd block" where
  "Block data =
     \<lparr>hash = None, block.height = 0, body = data, time = [], previousBlockHash = None, owner = None\<rparr>"

text \<open>
  The two collaborators of the sealing step are parameters: \<open>SHA256\<close> stands for
  \<^verbatim>\<open>s => SHA256(s).toString()\<close> of crypto-js and \<open>stringify\<close> for
  \<^verbatim>\<open>JSON.stringify\<close> on a block object.
\<close>

type_synonym hasher = "string \<Rightarrow> string"
type_synonym 'd serializer = "'d block \<Rightarrow> string"

text \<open>
  Modelled from the spec: the Hasher applied to a stored block, which is what
  \<^verbatim>\<open>block.validate()\<close> of \<^verbatim>\<open>block.js\<close> recomputes: the digest of the serialization of
  all fields except the hash itself (the hash field holds \<^verbatim>\<open>null\<close> while the block is
  serialized).
\<close>

definition digest :: "hasher \<Rightarrow> 'd serializer \<Rightarrow> 'd block \<Rightarrow> string" where
  "digest SHA256 stringify b = SHA256 (stringify (b\<lparr>hash := None\<rparr>))"

text \<open>
  Modelled from the spec: \<^verbatim>\<open>block.validate()\<close> of \<^verbatim>\<open>block.js\<close>, true when the
  recomputed digest is the stored hash.
\<close>

definition validate :: "hasher \<Rightarrow> 'd serializer \<Rightarrow> 'd block \<Rightarrow> bool" where
  "validate SHA256 stringify b = (hash b = Some (digest SHA256 stringify b))"

text \<open>
  Modelled from the spec: \<^verbatim>\<open>block.getBData()\<close> of \<^verbatim>\<open>block.js\<close>, the decoded payload
  of the block.
\<close>

definition getBData :: "'d block \<Rightarrow> 'd" where
  "getBData b = body b"

section \<open>The Blockchain class\<close>

text \<open>
  The state of a Blockchain object: the array \<^verbatim>\<open>this.chain\<close> and the number
  \<^verbatim>\<open>this.height\<close>. An entry of the array is a block or \<^verbatim>\<open>undefined\<close> (\<open>None\<close>):
  the last callback of \<^verbatim>\<open>_addBlock\<close> pushes whatever value the promise before it
  settled with.
\<close>

record 'd blockchain =
  chain :: "'d block option list"
  height :: int

text \<open>An array read \<^verbatim>\<open>this.chain[i]\<close>: \<open>None\<close> for no block there.\<close>

definition chain_at :: "'d block option list \<Rightarrow> int \<Rightarrow> 'd block option" where
  "chain_at c i = (case at_index c i of None \<Rightarrow> None | Some entry \<Rightarrow> entry)"

subsection \<open>getChainHeight, getUTCTimestamp\<close>

definition getChainHeight :: "'d blockchain \<Rightarrow> int" where
  "getChainHeight bc = blockchain.height bc"

text \<open>The argument is the reading of the clock, \<^verbatim>\<open>new Date().getTime()\<close>, in milliseconds.\<close>

definition getUTCTimestamp :: "int \<Rightarrow> string" where
  "getUTCTimestamp now = slice_0_m3 (toString now)"

subsection \<open>validateChain\<close>

text \<open>
  \<^verbatim>\<open>validateChain\<close> starts one asynchronous callback per entry of the chain, does not wait
  for them, and resolves its promise with the array \<^verbatim>\<open>errorLog\<close> at once; every callback
  stops at \<^verbatim>\<open>await block.validate()\<close> before it has logged anything. The later calls of
  \<^verbatim>\<open>resolve\<close> inside the callbacks find the promise resolved and do nothing; a call of
  \<^verbatim>\<open>resolve\<close> does not leave the callback either. So the promise always carries the
  array, and what a reaction to the promise reads from it depends on whether the callbacks
  have resumed by then.

  \<open>checkBlock\<close> is one callback, run from its \<^verbatim>\<open>await\<close> to its end: the lines it
  appends to the log. On an entry that is \<^verbatim>\<open>undefined\<close> the call \<^verbatim>\<open>block.validate()\<close>
  throws and the callback ends with nothing logged; so does the read of \<^verbatim>\<open>.hash\<close> when
  \<^verbatim>\<open>this.chain[previousBlockHeight]\<close> is \<^verbatim>\<open>undefined\<close>, after the first line may have
  been logged. (Nothing handles the rejection of such a callback; a runtime that ends the
  process on an unhandled rejection is outside the model.)
\<close>

definition not_valid_line :: "int \<Rightarrow> string" where
  "not_valid_line h = ''Block '' @ toString h @ '' is not valid.''"

definition no_link_line :: "int \<Rightarrow> int \<Rightarrow> string" where
  "no_link_line h p =
     ''Block '' @ toString h @ '' does not link to previous Block '' @ toString p @ ''.''"

definition checkBlock ::
  "hasher \<Rightarrow> 'd serializer \<Rightarrow> 'd block option list \<Rightarrow> 'd block option \<Rightarrow> string list" where
  "checkBlock SHA256 stringify c entry =
     (case entry of
        None \<Rightarrow> []
      | Some block \<Rightarrow>
          (let isBlockValid = validate SHA256 stringify block;
               previousBlockHeight = block.height block - 1;
               log1 = (if \<not> isBlockValid then [not_valid_line (block.height block)] else [])
           in if block.height block > 0
              then (case chain_at c previousBlockHeight of
                      None \<Rightarrow> log1
                    | Some previous \<Rightarrow>
                        if previousBlockHash block \<noteq> hash previous
                        then log1 @ [no_link_line (block.height block) previousBlockHeight]
                        else log1)
              else log1))"

text \<open>
  The contents of \<^verbatim>\<open>errorLog\<close> as the first reaction to the promise reads them. The
  parameter \<open>settled\<close> says how \<^verbatim>\<open>block.validate()\<close> (in \<^verbatim>\<open>block.js\<close>) hands back its
  result. When its promise is already settled on return, each callback resumes one
  microtask after its \<^verbatim>\<open>await\<close>, in chain order and ahead of any reaction registered
  after \<^verbatim>\<open>validateChain\<close> has returned: the reaction reads the lines of all callbacks.
  When the promise settles later, the reaction runs before any callback has resumed and
  reads an empty array; section 9 of the spec describes the reference this way (checks
  scheduled without waiting for them, so that results can be lost).
\<close>

definition validateChain ::
  "bool \<Rightarrow> hasher \<Rightarrow> 'd serializer \<Rightarrow> 'd block option list \<Rightarrow> string list" where
  "validateChain settled SHA256 stringify c =
     (if settled then concat (map (checkBlock SHA256 stringify c) c) else [])"

subsection \<open>The private method \<^verbatim>\<open>_addBlock\<close>\<close>

text \<open>
  The executor of the promise in \<^verbatim>\<open>_addBlock\<close>: the candidate gets its link, height,
  timestamp and hash. \<open>now\<close> is the clock reading taken by \<^verbatim>\<open>getUTCTimestamp\<close>.
\<close>

definition sealBlock ::
  "hasher \<Rightarrow> 'd serializer \<Rightarrow> 'd block option list \<Rightarrow> int \<Rightarrow> 'd block \<Rightarrow> 'd block" where
  "sealBlock SHA256 stringify c now block =
     (let height = int (length c);
          b1 = block\<lparr>previousBlockHash :=
                       (case chain_at c (height - 1) of None \<Rightarrow> None | Some previous \<Rightarrow> hash previous)\<rparr>;
          b2 = b1\<lparr>block.height := height\<rparr>;
          b3 = b2\<lparr>time := getUTCTimestamp now\<rparr>
      in b3\<lparr>hash := Some (SHA256 (stringify b3))\<rparr>)"

text \<open>\<^verbatim>\<open>block.hash && block.time && (block.height === this.chain.length) &&
  (block.hash.length === maxHashLength)\<close>: a string is truthy when it is not empty.\<close>

definition isBlockValid :: "'d block option list \<Rightarrow> 'd block \<Rightarrow> bool" where
  "isBlockValid c block =
     (case hash block of
        None \<Rightarrow> False
      | Some h \<Rightarrow> h \<noteq> [] \<and> time block \<noteq> [] \<and> block.height block = int (length c) \<and> length h = 64)"

text \<open>
  One call of \<^verbatim>\<open>_addBlock\<close>, run until its promise has settled, with no other call in
  between. The reaction to \<^verbatim>\<open>validateChain\<close> sets \<^verbatim>\<open>chainErrorFound\<close> before the
  executor resumes from its \<^verbatim>\<open>await\<close>. The promise of the executor is resolved with the
  sealed block or rejected; \<^verbatim>\<open>.catch\<close> turns the rejection into a promise resolved with
  \<^verbatim>\<open>undefined\<close>, so the callback of \<^verbatim>\<open>.then\<close> runs in both cases, and it pushes its
  argument unless \<^verbatim>\<open>chainErrorFound\<close> is set. The promise returned to the caller is
  never rejected: the result is the block it resolves with, or \<open>None\<close> for
  \<^verbatim>\<open>undefined\<close>.

  The candidate is taken by value, with the fields it has when the call is made.
  \<^verbatim>\<open>_addBlock\<close> seals the object it is given in place and pushes that same object, so
  the model is the code's for a candidate that is not already an entry of the chain, as
  are the blocks its two callers have just constructed. A candidate that is an entry
  already would have that entry rewritten as well; such a call is outside the model, and
  what is proved below about the blocks of a chain after a sequence of appends is stated
  for candidates that are unsealed (hash \<^verbatim>\<open>null\<close>) when they are handed over: every
  entry of the chain has been sealed, so such a candidate is none of them.
\<close>

definition addBlock ::
  "bool \<Rightarrow> hasher \<Rightarrow> 'd serializer \<Rightarrow> int \<Rightarrow> 'd blockchain \<Rightarrow> 'd block
     \<Rightarrow> 'd block option \<times> 'd blockchain" where
  "addBlock settled SHA256 stringify now bc block =
     (let chainErrorFound = (length (validateChain settled SHA256 stringify (chain bc)) \<noteq> 0);
          sealed = sealBlock SHA256 stringify (chain bc) now block;
          passed = (if isBlockValid (chain bc) sealed then Some sealed else None)
      in if \<not> chainErrorFound
         then (let pushed = chain bc @ [passed]
               in (passed, bc\<lparr>chain := pushed, height := int (length pushed) - 1\<rparr>))
         else (None, bc))"

text \<open>A sequence of appends, each run to its end before the next starts: the results
  and the final state. A request is the clock reading and the candidate as it is at the
  time of its call.\<close>

fun addBlocks ::
  "bool \<Rightarrow> hasher \<Rightarrow> 'd serializer \<Rightarrow> 'd blockchain \<Rightarrow> (int \<times> 'd block) list
     \<Rightarrow> 'd block option list \<times> 'd blockchain" where
  "addBlocks settled SHA256 stringify bc [] = ([], bc)"
| "addBlocks settled SHA256 stringify bc ((now, block) # rest) =
     (let (added, bc1) = addBlock settled SHA256 stringify now bc block;
          (results, bc2) = addBlocks settled SHA256 stringify bc1 rest
      in (added # results, bc2))"

subsection \<open>The constructor and initializeChain\<close>

definition initializeChain ::
  "bool \<Rightarrow> hasher \<Rightarrow> 's bdata serializer \<Rightarrow> int \<Rightarrow> 's bdata blockchain \<Rightarrow> 's bdata blockchain" where
  "initializeChain settled SHA256 stringify now bc =
     (if blockchain.height bc = - 1
      then snd (addBlock settled SHA256 stringify now bc (Block (Data ''Genesis Block'')))
      else bc)"

text \<open>The fields as the constructor assigns them, before \<^verbatim>\<open>initializeChain\<close> has
  added the genesis block.\<close>

definition empty_Blockchain :: "'d blockchain" where
  "empty_Blockchain = \<lparr>chain = [], height = - 1\<rparr>"

text \<open>\<^verbatim>\<open>new Blockchain()\<close>, once the pending \<^verbatim>\<open>initializeChain\<close> has run to its end.\<close>

definition Blockchain ::
  "bool \<Rightarrow> hasher \<Rightarrow> 's bdata serializer \<Rightarrow> int \<Rightarrow> 's bdata blockchain" where
  "Blockchain settled SHA256 stringify now =
     initializeChain settled SHA256 stringify now empty_Blockchain"

subsection \<open>requestMessageOwnershipVerification, submitStar\<close>

definition requestMessageOwnershipVerification :: "int \<Rightarrow> string \<Rightarrow> string" where
  "requestMessageOwnershipVerification now address =
     (let timestamp = getUTCTimestamp now
      in address @ '':'' @ timestamp @ '':starRegistry'')"

text \<open>The two errors \<^verbatim>\<open>submitStar\<close> rejects with:
  \<^verbatim>\<open>'Time has elapsed'\<close> and \<^verbatim>\<open>'Message is invalid'\<close>.\<close>

datatype error = Time_has_elapsed | Message_is_invalid

text \<open>A promise settles once: \<^verbatim>\<open>resolve\<close> and \<^verbatim>\<open>reject\<close> on a settled promise do
  nothing. \<open>None\<close> is the pending promise.\<close>

definition settle :: "'r option \<Rightarrow> 'r \<Rightarrow> 'r option" where
  "settle p v = (case p of None \<Rightarrow> Some v | Some w \<Rightarrow> Some w)"

text \<open>
  \<^verbatim>\<open>submitStar\<close>: \<open>verify\<close> stands for \<^verbatim>\<open>bitcoinMessage.verify\<close>, taken to return a
  boolean (on an address or a signature that is not well formed the library throws, which
  is outside the model); \<open>now_submit\<close> and \<open>now_seal\<close> are the clock readings of the
  two calls of \<^verbatim>\<open>getUTCTimestamp\<close> (here and in \<^verbatim>\<open>_addBlock\<close>). Neither call of
  \<^verbatim>\<open>reject\<close> is followed by a \<^verbatim>\<open>return\<close>: the executor goes on to build the block
  and to call \<^verbatim>\<open>_addBlock\<close>. The result is what the promise settles with, and the
  state after.
\<close>

definition submitStar ::
  "bool \<Rightarrow> hasher \<Rightarrow> 's bdata serializer \<Rightarrow> (string \<Rightarrow> string \<Rightarrow> 'g \<Rightarrow> bool) \<Rightarrow> int \<Rightarrow> int
     \<Rightarrow> 's bdata blockchain \<Rightarrow> string \<Rightarrow> string \<Rightarrow> 'g \<Rightarrow> 's
     \<Rightarrow> (error + 's bdata block option) \<times> 's bdata blockchain" where
  "submitStar settled SHA256 stringify verify now_submit now_seal bc address message signature star =
     (let requestedTime = parseInt (at_index (split CHR '':'' message) 1);
          currentTime = parseInt (Some (getUTCTimestamp now_submit));
          elapsedTime = js_minus currentTime requestedTime;
          targetTime = 5 * 60;
          p1 = (if js_gt elapsedTime targetTime then settle None (Inl Time_has_elapsed) else None);
          p2 = (if \<not> verify message address signature then settle p1 (Inl Message_is_invalid) else p1);
          block = (Block (Star star))\<lparr>owner := Some address\<rparr>;
          (added, bc1) = addBlock settled SHA256 stringify now_seal bc block
      in (case settle p2 (Inr added) of None \<Rightarrow> Inr added | Some outcome \<Rightarrow> outcome, bc1))"

subsection \<open>getStarsByWalletAddress\<close>

text \<open>
  The filter reads \<^verbatim>\<open>block.owner\<close> of every entry and throws a TypeError on an entry
  that is \<^verbatim>\<open>undefined\<close>, which rejects the promise. Otherwise the promise resolves with
  the decoded payloads of the selected blocks, in the order of the chain, each with its
  \<^verbatim>\<open>owner\<close> property set to the address: a pair of the payload and the owner.
\<close>

datatype type_error = TypeError

definition blocks_of :: "'d block option list \<Rightarrow> 'd block list" where
  "blocks_of c = concat (map (\<lambda>entry. case entry of None \<Rightarrow> [] | Some b \<Rightarrow> [b]) c)"

definition getStarsByWalletAddress ::
  "'d blockchain \<Rightarrow> string \<Rightarrow> type_error + ('d \<times> string) list" where
  "getStarsByWalletAddress bc address =
     (if None \<in> set (chain bc) then Inl TypeError
      else (let blocks = filter (\<lambda>block. owner block = Some address) (blocks_of (chain bc));
                stars = map getBData blocks
            in Inr (map (\<lambda>star. (star, address)) stars)))"

section \<open>The invariants of the chain\<close>

text \<open>
  The invariants the data model asks of a chain: it is not empty, every entry is a block
  whose height is its index, the block at index 0 has no previous hash and no owner, and
  every later block stores the hash of the block before it.
\<close>

definition chain_invariants :: "'d block option list \<Rightarrow> bool" where
  "chain_invariants c =
     (c \<noteq> [] \<and>
      (\<forall>i \<in> {..<length c}.
         case c ! i of
           None \<Rightarrow> False
         | Some b \<Rightarrow>
             block.height b = int i \<and>
             (if i = 0 then previousBlockHash b = None \<and> owner b = None
              else previousBlockHash b = (case c ! (i - 1) of None \<Rightarrow> None | Some p \<Rightarrow> hash p))))"

section \<open>The audit as the spec words it\<close>

text \<open>
  Section 4.5 of the spec, on a chain whose entries are all blocks: for every block in
  height order, a \<open>TamperedBlock\<close> when the recomputed digest is not the stored hash,
  and, for height above 0, a \<open>BrokenLink\<close> with the expected hash when the previous
  hash is not the stored hash of the block one height below. This definition follows the
  spec; \<open>validateChain\<close> above follows the source. \<open>line_of\<close> is the line of the
  source's log for an entry.
\<close>

datatype validation_error = TamperedBlock int | BrokenLink int "string option"

definition audit_block :: "hasher \<Rightarrow> 'd serializer \<Rightarrow> 'd block list \<Rightarrow> nat \<Rightarrow> validation_error list" where
  "audit_block SHA256 stringify bs i =
     (if hash (bs ! i) \<noteq> Some (digest SHA256 stringify (bs ! i)) then [TamperedBlock (int i)] else []) @
     (if 0 < i \<and> previousBlockHash (bs ! i) \<noteq> hash (bs ! (i - 1))
      then [BrokenLink (int i) (hash (bs ! (i - 1)))] else [])"

definition audit :: "hasher \<Rightarrow> 'd serializer \<Rightarrow> 'd block list \<Rightarrow> validation_error list" where
  "audit SHA256 stringify bs = concat (map (audit_block SHA256 stringify bs) [0..<length bs])"

fun line_of :: "validation_error \<Rightarrow> string" where
  "line_of (TamperedBlock h) = not_valid_line h"
| "line_of (BrokenLink h expected) = no_link_line h (h - 1)"

section \<open>Stand-ins for the collaborators\<close>

text \<open>
  A deterministic hasher and serializer to run the model on concrete inputs (the digest
  library and \<^verbatim>\<open>JSON.stringify\<close> are parameters everywhere else): the hasher pads or
  cuts its input to 64 characters, the serializer writes height, timestamp and owner.
\<close>

definition fake_SHA256 :: hasher where
  "fake_SHA256 s = take 64 (s @ replicate 64 (CHR ''0''))"

definition fake_stringify :: "'d serializer" where
  "fake_stringify b =
     toString (block.height b) @ '','' @ time b @ '','' @ (case owner b of None \<Rightarrow> [] | Some a \<Rightarrow> a)"

section \<open>Decimal rendering and the timestamp\<close>

lemma digits_small: "n < 10 \<Longrightarrow> digits n = [digit_char n]"
  by (subst digits.simps) simp

lemma digits_large: "10 \<le> n \<Longrightarrow> digits n = digits (n div 10) @ [digit_char (n mod 10)]"
  by (subst digits.simps) simp

lemma digits_nonempty: "digits n \<noteq> []"
  by (subst digits.simps) simp

lemma toString_nonempty: "toString i \<noteq> []"
  by (simp add: toString_def digits_nonempty)

lemmas render_simps = toString_def digits_small digits_large digit_char_def

lemmas parse_simps =
  parseInt_def parseInt_text_def digit_value_def isWhiteSpace_def isWhiteSpace2_def
  isWhiteSpace3_def at_index_def

lemma digits_thousand:
  assumes "1000 \<le> n"
  shows "digits n = digits (n div 1000) @
           [digit_char (n div 100 mod 10), digit_char (n div 10 mod 10), digit_char (n mod 10)]"
proof -
  have a: "digits n = digits (n div 10) @ [digit_char (n mod 10)]"
    using assms by (simp add: digits_large)
  have b: "digits (n div 10) = digits (n div 10 div 10) @ [digit_char (n div 10 mod 10)]"
    using assms by (simp add: digits_large)
  have c: "digits (n div 10 div 10) =
             digits (n div 10 div 10 div 10) @ [digit_char (n div 10 div 10 mod 10)]"
    using assms by (simp add: digits_large)
  have d: "n div 10 div 10 = n div 100" "n div 10 div 10 div 10 = n div 1000"
    by (simp_all add: div_mult2_eq[symmetric])
  show ?thesis
    using a b c d by simp
qed

lemma getUTCTimestamp_seconds:
  assumes "1000 \<le> now"
  shows "getUTCTimestamp now = toString (now div 1000)"
proof -
  have n: "1000 \<le> nat now" using assms by simp
  have t: "toString now = digits (nat now)" using assms by (simp add: toString_def)
  have q: "nat (now div 1000) = nat now div 1000"
    by (simp add: nat_div_distrib)
  have p: "0 \<le> now div 1000" using assms by simp
  show ?thesis
    using digits_thousand[OF n] t q p
    by (simp add: getUTCTimestamp_def slice_0_m3_def toString_def)
qed

lemma getUTCTimestamp_below_1000: "getUTCTimestamp 999 = []"
  by (simp add: getUTCTimestamp_def slice_0_m3_def render_simps)

lemma sealBlock_time: "time (sealBlock SHA256 stringify c now block) = getUTCTimestamp now"
  by (simp add: sealBlock_def Let_def)

subsection \<open>parseInt reads back what toString writes\<close>

lemma digit_char_cases:
  assumes "d < 10"
  shows "digit_char d \<in> set ''0123456789'' \<and> digit_value 10 (digit_char d) = Some d"
proof -
  from assms
  have "d = 0 \<or> d = 1 \<or> d = 2 \<or> d = 3 \<or> d = 4 \<or> d = 5 \<or> d = 6 \<or> d = 7 \<or> d = 8 \<or> d = 9"
    by arith
  then show ?thesis
    by (elim disjE) (simp_all add: digit_char_def digit_value_def)
qed

lemma digits_chars: "c \<in> set (digits n) \<Longrightarrow> \<exists>d<10. c = digit_char d"
proof (induction n rule: digits.induct)
  case (1 n)
  show ?case
  proof (cases "n < 10")
    case True
    with "1.prems" show ?thesis by (auto simp: digits_small)
  next
    case False
    then have "digits n = digits (n div 10) @ [digit_char (n mod 10)]"
      by (simp add: digits_large)
    with "1.prems" have "c \<in> set (digits (n div 10)) \<or> c = digit_char (n mod 10)"
      by auto
    then show ?thesis
    proof
      assume "c \<in> set (digits (n div 10))"
      with "1.IH"[OF False] show ?thesis by simp
    next
      assume "c = digit_char (n mod 10)"
      moreover have "n mod 10 < 10" by simp
      ultimately show ?thesis by blast
    qed
  qed
qed

lemma read_digits_append:
  assumes "\<forall>c\<in>set xs. digit_value r c \<noteq> None"
  shows "read_digits r (xs @ ys) acc = read_digits r ys (read_digits r xs acc)"
  using assms by (induction xs arbitrary: acc) auto

lemma read_digits_digits: "read_digits 10 (digits n) None = Some n"
proof (induction n rule: digits.induct)
  case (1 n)
  show ?case
  proof (cases "n < 10")
    case True
    then show ?thesis
      by (simp add: digits_small digit_char_cases)
  next
    case False
    have all: "\<forall>c\<in>set (digits (n div 10)). digit_value 10 c \<noteq> None"
      using digits_chars digit_char_cases by fastforce
    have "n mod 10 < 10" by simp
    then have v: "digit_value 10 (digit_char (n mod 10)) = Some (n mod 10)"
      by (simp add: digit_char_cases)
    from False have "digits n = digits (n div 10) @ [digit_char (n mod 10)]"
      by (simp add: digits_large)
    then show ?thesis
      using "1.IH"[OF False] v by (simp add: read_digits_append[OF all])
  qed
qed

lemma trimStart_digit:
  assumes "x \<in> set ''0123456789''"
  shows "trimStart (x # xs) = x # xs"
proof -
  from assms have w: "\<not> isWhiteSpace x" "\<And>b. \<not> isWhiteSpace2 x b" "\<And>b c. \<not> isWhiteSpace3 x b c"
    by (auto simp: isWhiteSpace_def isWhiteSpace2_def isWhiteSpace3_def)
  show ?thesis
  proof (cases xs)
    case Nil
    with w show ?thesis by simp
  next
    case (Cons b ys)
    with w show ?thesis by (cases ys) simp_all
  qed
qed

lemma digits_plain:
  "trimStart (digits n) = digits n \<and> hd (digits n) \<noteq> CHR ''-'' \<and>
   hd (digits n) \<noteq> CHR ''+'' \<and> take 2 (digits n) \<noteq> ''0x'' \<and> take 2 (digits n) \<noteq> ''0X''"
proof -
  have m: "c \<in> set ''0123456789''" if "c \<in> set (digits n)" for c
    using digits_chars[OF that] digit_char_cases by blast
  have "hd (digits n) \<in> set (digits n)"
    using digits_nonempty by simp
  from m[OF this] have h: "hd (digits n) \<in> set ''0123456789''" .
  have "digits n = hd (digits n) # tl (digits n)"
    using digits_nonempty by simp
  then have t: "trimStart (digits n) = digits n"
    using trimStart_digit[OF h, of "tl (digits n)"] by simp
  have x: "take 2 (digits n) \<noteq> [a, b]" if "b \<notin> set ''0123456789''" for a b
  proof
    assume "take 2 (digits n) = [a, b]"
    then have "b \<in> set (take 2 (digits n))" by simp
    then have "b \<in> set (digits n)" by (rule in_set_takeD)
    with m that show False by blast
  qed
  have "take 2 (digits n) \<noteq> ''0x''" "take 2 (digits n) \<noteq> ''0X''"
    by (rule x, simp)+
  with h t show ?thesis
    by auto
qed

lemma parseInt_toString:
  assumes "0 \<le> i"
  shows "parseInt (Some (toString i)) = Some i"
  using assms digits_plain[of "nat i"] digits_nonempty[of "nat i"]
  by (simp add: parseInt_def parseInt_text_def toString_def Let_def read_digits_digits)

text \<open>The current time of \<^verbatim>\<open>submitStar\<close>, in whole seconds, for every clock reading of
  at least one second.\<close>

lemma currentTime_seconds:
  assumes "1000 \<le> now"
  shows "parseInt (Some (getUTCTimestamp now)) = Some (now div 1000)"
proof -
  have "0 \<le> now div 1000" using assms by simp
  then show ?thesis
    by (simp add: getUTCTimestamp_seconds[OF assms] parseInt_toString)
qed

text \<open>
  Claim C10. \<^verbatim>\<open>getUTCTimestamp\<close> returns a string: the decimal rendering of the
  millisecond clock without its last three characters. For a reading of at least 1000
  milliseconds that is the decimal rendering of the whole seconds. The same string is the
  timestamp of a block sealed at that reading and the middle segment of the message of
  \<^verbatim>\<open>requestMessageOwnershipVerification\<close>.
\<close>

theorem getUTCTimestamp_is_seconds_string:
  "getUTCTimestamp now = take (length (toString now) - 3) (toString now) \<and>
   (1000 \<le> now \<longrightarrow> getUTCTimestamp now = toString (now div 1000)) \<and>
   time (sealBlock SHA256 stringify c now block) = getUTCTimestamp now \<and>
   requestMessageOwnershipVerification now address =
     address @ '':'' @ getUTCTimestamp now @ '':starRegistry''"
  by (simp add: getUTCTimestamp_seconds sealBlock_time requestMessageOwnershipVerification_def)
     (simp add: getUTCTimestamp_def slice_0_m3_def)

theorem getUTCTimestamp_is_seconds_string_witness:
  "(1000 :: int) \<le> 1700000000123 \<and>
   getUTCTimestamp 1700000000123 = ''1700000000'' \<and>
   time (sealBlock (\<lambda>s. s) body [] 1700000000123 (Block ''payload'')) = ''1700000000'' \<and>
   requestMessageOwnershipVerification 1700000000123 ''abc'' = ''abc:1700000000:starRegistry''"
proof -
  note t = getUTCTimestamp_is_seconds_string
             [of 1700000000123 "\<lambda>s. s" body "[]" "Block ''payload''" "''abc''"]
  have le: "(1000 :: int) \<le> 1700000000123"
    by simp
  have s: "toString (1700000000123 div 1000) = ''1700000000''"
    by (simp add: render_simps)
  from t le have a: "getUTCTimestamp 1700000000123 = toString (1700000000123 div 1000)"
    by blast
  from t have b: "time (sealBlock (\<lambda>s. s) body [] 1700000000123 (Block ''payload'')) =
                    getUTCTimestamp 1700000000123"
    by blast
  from t have c: "requestMessageOwnershipVerification 1700000000123 ''abc'' =
                    ''abc'' @ '':'' @ getUTCTimestamp 1700000000123 @ '':starRegistry''"
    by blast
  show ?thesis
    by (simp only: a b c s le) simp
qed

section \<open>Sealing and the digest\<close>

lemma sealBlock_fresh:
  "hash block = None \<Longrightarrow>
     hash (sealBlock SHA256 stringify c now block) =
       Some (digest SHA256 stringify (sealBlock SHA256 stringify c now block))"
  by (cases block) (simp add: sealBlock_def digest_def Let_def)

text \<open>
  Claim C7. A block built by the constructor, with or without an owner and whatever its
  payload, and then sealed by \<^verbatim>\<open>_addBlock\<close> stores as its hash the digest that is
  recomputed from its stored fields with the hash field left out; \<^verbatim>\<open>validate\<close> accepts
  it.
\<close>

theorem sealed_block_digest_roundtrip:
  "hash (sealBlock SHA256 stringify c now ((Block payload)\<lparr>owner := who\<rparr>)) =
     Some (digest SHA256 stringify (sealBlock SHA256 stringify c now ((Block payload)\<lparr>owner := who\<rparr>))) \<and>
   validate SHA256 stringify (sealBlock SHA256 stringify c now ((Block payload)\<lparr>owner := who\<rparr>))"
  by (simp add: validate_def sealBlock_fresh Block_def)

lemma sealBlock_height: "block.height (sealBlock SHA256 stringify c now block) = int (length c)"
  by (simp add: sealBlock_def Let_def)

lemma sealBlock_owner: "owner (sealBlock SHA256 stringify c now block) = owner block"
  by (simp add: sealBlock_def Let_def)


lemma isBlockValid_sealed:
  assumes "\<forall>s. length (SHA256 s) = 64" "1000 \<le> now"
  shows "isBlockValid c (sealBlock SHA256 stringify c now block)"
proof -
  have "getUTCTimestamp now \<noteq> []"
    using assms(2) by (simp add: getUTCTimestamp_seconds toString_nonempty)
  moreover have "length (SHA256 s) = 64" for s using assms(1) by simp
  moreover have "SHA256 s \<noteq> []" for s using assms(1)[rule_format, of s] by auto
  ultimately show ?thesis
    by (simp add: isBlockValid_def sealBlock_def Let_def)
qed

section \<open>validateChain\<close>

lemma validateChain_Nil: "validateChain settled SHA256 stringify [] = []"
  by (simp add: validateChain_def)

lemma checkBlock_None: "checkBlock SHA256 stringify c None = []"
  by (simp add: checkBlock_def)

lemma checkBlock_genesis:
  assumes "validate SHA256 stringify b" "block.height b = 0"
  shows "checkBlock SHA256 stringify c (Some b) = []"
  using assms by (simp add: checkBlock_def Let_def)



lemma chain_at_Some:
  assumes "i < length bs"
  shows "chain_at (map Some bs) (int i) = Some (bs ! i)"
  using assms by (simp add: chain_at_def at_index_def)

text \<open>
  When the callbacks have run before the log is read, and every entry of the chain is a
  block whose height is its index, the log holds the lines of the audit the spec
  describes: every violation, in height order, and nothing when there is none.
\<close>

lemma checkBlock_audit:
  assumes h: "\<forall>j<length bs. block.height (bs ! j) = int j" and i: "i < length bs"
  shows "checkBlock SHA256 stringify (map Some bs) (Some (bs ! i)) = map line_of (audit_block SHA256 stringify bs i)"
proof (cases "i = 0")
  case True
  with h i show ?thesis
    by (simp add: checkBlock_def audit_block_def validate_def Let_def)
next
  case False
  then have p: "int i - 1 = int (i - 1)" "i - 1 < length bs" "0 < i"
    using i by simp_all
  have hi: "block.height (bs ! i) = int i" using h i by simp
  have c: "chain_at (map Some bs) (int i - 1) = Some (bs ! (i - 1))"
    unfolding p(1) using p(2) by (rule chain_at_Some)
  show ?thesis
    using p(3) by (simp add: checkBlock_def audit_block_def validate_def Let_def hi c)
qed

lemma validateChain_audit:
  assumes "\<forall>j<length bs. block.height (bs ! j) = int j"
  shows "validateChain True SHA256 stringify (map Some bs) = map line_of (audit SHA256 stringify bs)"
proof -
  have "map (checkBlock SHA256 stringify (map Some bs)) (map Some bs) =
          map (\<lambda>i. checkBlock SHA256 stringify (map Some bs) (Some (bs ! i))) [0..<length bs]"
    by (rule nth_equalityI) simp_all
  also have "\<dots> = map (\<lambda>i. map line_of (audit_block SHA256 stringify bs i)) [0..<length bs]"
    using checkBlock_audit[OF assms] by simp
  finally show ?thesis
    by (simp add: validateChain_def audit_def map_concat comp_def)
qed

lemma audit_empty_iff:
  "audit SHA256 stringify bs = [] \<longleftrightarrow>
     (\<forall>i<length bs. validate SHA256 stringify (bs ! i) \<and>
        (0 < i \<longrightarrow> previousBlockHash (bs ! i) = hash (bs ! (i - 1))))"
proof -
  have a: "audit_block SHA256 stringify bs i = [] \<longleftrightarrow>
             (validate SHA256 stringify (bs ! i) \<and> (0 < i \<longrightarrow> previousBlockHash (bs ! i) = hash (bs ! (i - 1))))"
    for i
    by (simp add: audit_block_def validate_def)
  have "audit SHA256 stringify bs = [] \<longleftrightarrow> (\<forall>i\<in>{0..<length bs}. audit_block SHA256 stringify bs i = [])"
    by (simp add: audit_def)
  also have "\<dots> \<longleftrightarrow> (\<forall>i<length bs. audit_block SHA256 stringify bs i = [])"
    by (simp add: Ball_def)
  finally show ?thesis
    by (simp only: a)
qed

lemma timestamp_1000: "getUTCTimestamp 1000000 = ''1000''"
  by (simp add: getUTCTimestamp_def slice_0_m3_def render_simps)

lemma timestamp_1300: "getUTCTimestamp 1300000 = ''1300''"
  by (simp add: getUTCTimestamp_def slice_0_m3_def render_simps)

lemma timestamp_1600: "getUTCTimestamp 1600000 = ''1600''"
  by (simp add: getUTCTimestamp_def slice_0_m3_def render_simps)

lemmas run_simps =
  Let_def validateChain_def checkBlock_def validate_def digest_def sealBlock_def Block_def
  chain_at_def at_index_def timestamp_1000 timestamp_1300 timestamp_1600 not_valid_line_def
  fake_SHA256_def fake_stringify_def render_simps

section \<open>Appending: \<^verbatim>\<open>_addBlock\<close>\<close>

lemma addBlock_unflagged:
  assumes "validateChain settled SHA256 stringify (chain bc) = []"
  shows "addBlock settled SHA256 stringify now bc block =
           (let passed = (if isBlockValid (chain bc) (sealBlock SHA256 stringify (chain bc) now block)
                          then Some (sealBlock SHA256 stringify (chain bc) now block) else None)
            in (passed, bc\<lparr>chain := chain bc @ [passed], height := int (length (chain bc))\<rparr>))"
  using assms by (simp add: addBlock_def Let_def)

lemma addBlock_flagged:
  assumes "validateChain settled SHA256 stringify (chain bc) \<noteq> []"
  shows "addBlock settled SHA256 stringify now bc block = (None, bc)"
  using assms by (simp add: addBlock_def Let_def)


lemma addBlock_height:
  assumes "blockchain.height bc = int (length (chain bc)) - 1"
  shows "blockchain.height (snd (addBlock settled SHA256 stringify now bc block)) =
           int (length (chain (snd (addBlock settled SHA256 stringify now bc block)))) - 1"
  using assms by (simp add: addBlock_def Let_def)

lemma addBlocks_Cons:
  "addBlocks settled SHA256 stringify bc ((now, block) # rest) =
     (fst (addBlock settled SHA256 stringify now bc block) #
        fst (addBlocks settled SHA256 stringify (snd (addBlock settled SHA256 stringify now bc block)) rest),
      snd (addBlocks settled SHA256 stringify (snd (addBlock settled SHA256 stringify now bc block)) rest))"
  by (simp split: prod.splits)

lemma addBlocks_height:
  assumes "blockchain.height bc = int (length (chain bc)) - 1"
  shows "blockchain.height (snd (addBlocks settled SHA256 stringify bc reqs)) =
           int (length (chain (snd (addBlocks settled SHA256 stringify bc reqs)))) - 1"
  using assms
proof (induction reqs arbitrary: bc)
  case Nil
  then show ?case by simp
next
  case (Cons r reqs)
  obtain now block where r: "r = (now, block)" by (cases r)
  have "blockchain.height (snd (addBlock settled SHA256 stringify now bc block)) =
           int (length (chain (snd (addBlock settled SHA256 stringify now bc block)))) - 1"
    using Cons.prems by (rule addBlock_height)
  from Cons.IH[OF this] show ?case
    by (simp only: r addBlocks_Cons snd_conv)
qed

lemma Blockchain_state:
  "Blockchain settled SHA256 stringify now0 =
     (let g = sealBlock SHA256 stringify [] now0 (Block (Data ''Genesis Block''))
      in \<lparr>chain = [if isBlockValid [] g then Some g else None], height = 0\<rparr>)"
  by (simp add: Blockchain_def initializeChain_def empty_Blockchain_def addBlock_def
      validateChain_Nil Let_def)

lemma Blockchain_height: "blockchain.height (Blockchain settled SHA256 stringify now0) = 0"
  by (simp add: Blockchain_state Let_def)

lemma Blockchain_length: "length (chain (Blockchain settled SHA256 stringify now0)) = 1"
  by (simp add: Blockchain_state Let_def)


lemma validateChain_Blockchain:
  "validateChain settled SHA256 stringify (chain (Blockchain settled SHA256 stringify now0)) = []"
proof -
  have f: "hash (Block (Data ''Genesis Block'') :: 's bdata block) = None"
    by (simp add: Block_def)
  have v: "validate SHA256 stringify (sealBlock SHA256 stringify [] now0 (Block (Data ''Genesis Block'')))"
    using sealBlock_fresh[OF f] by (simp add: validate_def)
  have "checkBlock SHA256 stringify c (Some (sealBlock SHA256 stringify [] now0 (Block (Data ''Genesis Block'')))) = []" for c
    using v by (rule checkBlock_genesis) (simp add: sealBlock_height)
  then show ?thesis
    by (simp add: Blockchain_state validateChain_def Let_def checkBlock_None)
qed

lemma addBlock_on_Blockchain_sealed:
  assumes "\<forall>s. length (SHA256 s) = 64" "1000 \<le> now"
  shows "addBlock settled SHA256 stringify now (Blockchain settled SHA256 stringify now0) block =
           (Some (sealBlock SHA256 stringify (chain (Blockchain settled SHA256 stringify now0)) now block),
            (Blockchain settled SHA256 stringify now0)
              \<lparr>chain := chain (Blockchain settled SHA256 stringify now0) @
                          [Some (sealBlock SHA256 stringify (chain (Blockchain settled SHA256 stringify now0)) now block)],
               height := 1\<rparr>)"
  by (simp add: addBlock_unflagged[OF validateChain_Blockchain] Let_def
      isBlockValid_sealed[OF assms] Blockchain_length)


text \<open>Whenever a check of the sealed block fails and the chain was not flagged, the
  value pushed is \<^verbatim>\<open>undefined\<close>.\<close>

lemma addBlock_pushes_when_check_fails:
  assumes "\<not> isBlockValid (chain bc) (sealBlock SHA256 stringify (chain bc) now block)"
    and "validateChain settled SHA256 stringify (chain bc) = []"
  shows "addBlock settled SHA256 stringify now bc block =
           (None, bc\<lparr>chain := chain bc @ [None], height := int (length (chain bc))\<rparr>)"
  using assms by (simp add: addBlock_unflagged Let_def)

text \<open>
  Claim C2. The checks on the sealed block are the four the claim lists
  (\<open>isBlockValid\<close>). The claim asks that a failed check fails the append and leaves the
  chain alone. At a clock reading of 999 milliseconds the timestamp is the empty string,
  the check fails, and the append on the empty chain of the constructor resolves with
  \<^verbatim>\<open>undefined\<close> after pushing \<^verbatim>\<open>undefined\<close>: the chain has one entry more and the
  height is 0.
\<close>

theorem addBlock_failed_check_pushes_undefined:
  "getUTCTimestamp 999 = [] \<and>
   \<not> isBlockValid [] (sealBlock SHA256 stringify [] 999 block) \<and>
   addBlock settled SHA256 stringify 999 empty_Blockchain block =
     (None, \<lparr>chain = [None], height = 0\<rparr>) \<and>
   Blockchain settled SHA256 stringify 999 = \<lparr>chain = [None], height = 0\<rparr>"
  by (simp add: Blockchain_def initializeChain_def empty_Blockchain_def addBlock_def
      validateChain_Nil Let_def isBlockValid_def sealBlock_time getUTCTimestamp_below_1000
      split: option.splits)

text \<open>
  Claim C4. The claim asks that an append on a chain with validation errors is rejected.
  On the chain whose block 1 had its owner rewritten, with the errors read after the
  checks the append pushes nothing and its promise resolves with \<^verbatim>\<open>undefined\<close>: it is
  not rejected. With the errors read before the checks the flag stays unset and the
  sealed block is pushed onto the broken chain.
\<close>

theorem addBlock_on_broken_chain:
  "(let g = sealBlock fake_SHA256 fake_stringify [] 1000000 (Block (Data ''Genesis Block''));
        b = sealBlock fake_SHA256 fake_stringify [Some g] 1300000
              ((Block (Star star))\<lparr>owner := Some ''abc''\<rparr>);
        bc = \<lparr>chain = [Some g, Some (b\<lparr>owner := Some ''mallory''\<rparr>)], height = 1\<rparr>;
        candidate = (Block (Star star2))\<lparr>owner := Some ''abc''\<rparr>
    in validateChain True fake_SHA256 fake_stringify (chain bc) = [''Block 1 is not valid.''] \<and>
       addBlock True fake_SHA256 fake_stringify 1600000 bc candidate = (None, bc) \<and>
       fst (addBlock False fake_SHA256 fake_stringify 1600000 bc candidate) =
         Some (sealBlock fake_SHA256 fake_stringify (chain bc) 1600000 candidate) \<and>
       length (chain (snd (addBlock False fake_SHA256 fake_stringify 1600000 bc candidate))) = 3 \<and>
       blockchain.height (snd (addBlock False fake_SHA256 fake_stringify 1600000 bc candidate)) = 2)"
  by (simp add: addBlock_def isBlockValid_def run_simps)

lemma submitStar_state:
  "snd (submitStar settled SHA256 stringify verify now_submit now_seal bc address message signature star) =
   snd (addBlock settled SHA256 stringify now_seal bc ((Block (Star star))\<lparr>owner := Some address\<rparr>))"
  by (simp add: submitStar_def Let_def split: prod.splits)

text \<open>
  Claim C9. The height field is the index of the last entry, the length of the chain
  minus one: right after the constructor has assigned its fields (\<open>- 1\<close> on the empty
  chain), after the genesis append (0 on a chain of one entry), after every further append
  and after every \<^verbatim>\<open>submitStar\<close>, whatever their outcome; \<^verbatim>\<open>getChainHeight\<close> resolves
  with that value.
\<close>

theorem height_is_last_index:
  "blockchain.height (empty_Blockchain :: 's bdata blockchain) =
     int (length (chain (empty_Blockchain :: 's bdata blockchain))) - 1 \<and>
   blockchain.height (Blockchain settled SHA256 stringify now0) = 0 \<and>
   length (chain (Blockchain settled SHA256 stringify now0)) = 1 \<and>
   (let bc = snd (addBlocks settled SHA256 stringify (Blockchain settled SHA256 stringify now0) reqs);
        bc1 = snd (submitStar settled SHA256 stringify verify now_submit now_seal bc address message signature star)
    in blockchain.height bc = int (length (chain bc)) - 1 \<and>
       getChainHeight bc = int (length (chain bc)) - 1 \<and>
       blockchain.height bc1 = int (length (chain bc1)) - 1 \<and>
       getChainHeight bc1 = int (length (chain bc1)) - 1)"
proof -
  have init: "blockchain.height (Blockchain settled SHA256 stringify now0) =
                int (length (chain (Blockchain settled SHA256 stringify now0))) - 1"
    by (simp add: Blockchain_height Blockchain_length)
  have run: "blockchain.height (snd (addBlocks settled SHA256 stringify (Blockchain settled SHA256 stringify now0) reqs)) =
      int (length (chain (snd (addBlocks settled SHA256 stringify (Blockchain settled SHA256 stringify now0) reqs)))) - 1"
    using init by (rule addBlocks_height)
  have sub: "blockchain.height (snd (addBlock settled SHA256 stringify now_seal
                 (snd (addBlocks settled SHA256 stringify (Blockchain settled SHA256 stringify now0) reqs))
                 ((Block (Star star))\<lparr>owner := Some address\<rparr>))) =
      int (length (chain (snd (addBlock settled SHA256 stringify now_seal
                 (snd (addBlocks settled SHA256 stringify (Blockchain settled SHA256 stringify now0) reqs))
                 ((Block (Star star))\<lparr>owner := Some address\<rparr>))))) - 1"
    using run by (rule addBlock_height)
  have e: "blockchain.height (empty_Blockchain :: 's bdata blockchain) =
     int (length (chain (empty_Blockchain :: 's bdata blockchain))) - 1"
    by (simp add: empty_Blockchain_def)
  show ?thesis
    using run sub e
    by (simp add: Let_def submitStar_state getChainHeight_def Blockchain_height Blockchain_length)
qed

section \<open>The invariants hold on the chains the class builds\<close>





lemma chain_invariants_D:
  assumes "chain_invariants c" "i < length c"
  shows "case c ! i of
           None \<Rightarrow> False
         | Some b \<Rightarrow>
             block.height b = int i \<and>
             (if i = 0 then previousBlockHash b = None \<and> owner b = None
              else previousBlockHash b = (case c ! (i - 1) of None \<Rightarrow> None | Some p \<Rightarrow> hash p))"
  using assms by (simp add: chain_invariants_def)

lemma chain_invariants_nth:
  assumes "chain_invariants c" "i < length c"
  shows "\<exists>b. c ! i = Some b \<and> block.height b = int i \<and>
           (if i = 0 then previousBlockHash b = None \<and> owner b = None
            else \<exists>p. c ! (i - 1) = Some p \<and> previousBlockHash b = hash p)"
proof -
  note d = chain_invariants_D[OF assms]
  obtain b where b: "c ! i = Some b"
    using d by (cases "c ! i") simp_all
  from d b have hb: "block.height b = int i"
    and pb: "if i = 0 then previousBlockHash b = None \<and> owner b = None
             else previousBlockHash b = (case c ! (i - 1) of None \<Rightarrow> None | Some p \<Rightarrow> hash p)"
    by simp_all
  show ?thesis
  proof (cases "i = 0")
    case True
    with b hb pb show ?thesis by simp
  next
    case False
    then have "i - 1 < length c" using assms(2) by simp
    from chain_invariants_D[OF assms(1) this] obtain p where p: "c ! (i - 1) = Some p"
      by (cases "c ! (i - 1)") simp_all
    with False b hb pb show ?thesis by simp
  qed
qed

lemma fake_SHA256_length: "\<forall>s. length (fake_SHA256 s) = 64"
  by (simp add: fake_SHA256_def min_def)



section \<open>submitStar\<close>

lemma submitStar_outcome:
  "fst (submitStar settled SHA256 stringify verify now_submit now_seal bc address message signature star) =
     (if js_gt (js_minus (parseInt (Some (getUTCTimestamp now_submit)))
                  (parseInt (at_index (split CHR '':'' message) 1))) 300
      then Inl Time_has_elapsed
      else if \<not> verify message address signature then Inl Message_is_invalid
      else Inr (fst (addBlock settled SHA256 stringify now_seal bc ((Block (Star star))\<lparr>owner := Some address\<rparr>))))"
  by (simp add: submitStar_def Let_def settle_def split: prod.splits)

lemma message_time: "parseInt (at_index (split CHR '':'' ''abc:1000:starRegistry'') 1) = Some 1000"
  by (simp add: parse_simps)

text \<open>
  Claim C6. For a message whose second segment parses to \<open>issuedAt\<close> and a clock whose
  timestamp parses to \<open>current\<close> (by \<open>currentTime_seconds\<close> the whole seconds of every
  reading of at least 1000 milliseconds), the promise of \<^verbatim>\<open>submitStar\<close> is rejected
  with \<^verbatim>\<open>'Time has elapsed'\<close> exactly when \<open>current - issuedAt\<close> is above 300: at 300
  and below, negative values included, the window check lets the submission through and
  the outcome is that of the signature check and the append.
\<close>

theorem submitStar_window:
  assumes "parseInt (at_index (split CHR '':'' message) 1) = Some issuedAt"
    and "parseInt (Some (getUTCTimestamp now_submit)) = Some current"
  shows "(fst (submitStar settled SHA256 stringify verify now_submit now_seal bc address message signature star)
            = Inl Time_has_elapsed) = (300 < current - issuedAt) \<and>
         fst (submitStar settled SHA256 stringify verify now_submit now_seal bc address message signature star) =
           (if current - issuedAt \<le> 300
            then (if verify message address signature
                  then Inr (fst (addBlock settled SHA256 stringify now_seal bc
                                  ((Block (Star star))\<lparr>owner := Some address\<rparr>)))
                  else Inl Message_is_invalid)
            else Inl Time_has_elapsed)"
  using assms by (simp add: submitStar_outcome js_gt_def js_minus_def del: split.simps)

theorem submitStar_window_witness:
  "parseInt (at_index (split CHR '':'' ''abc:1000:starRegistry'') 1) = Some 1000 \<and>
   parseInt (Some (getUTCTimestamp 1300000)) = Some 1300 \<and>
   parseInt (Some (getUTCTimestamp 1301000)) = Some 1301 \<and>
   parseInt (Some (getUTCTimestamp 900000)) = Some 900 \<and>
   fst (submitStar True fake_SHA256 fake_stringify (\<lambda>m a s. True) 1300000 1300000
          (Blockchain True fake_SHA256 fake_stringify 1000000)
          ''abc'' ''abc:1000:starRegistry'' ''signature'' ''sirius'') \<noteq> Inl Time_has_elapsed \<and>
   fst (submitStar True fake_SHA256 fake_stringify (\<lambda>m a s. True) 1301000 1301000
          (Blockchain True fake_SHA256 fake_stringify 1000000)
          ''abc'' ''abc:1000:starRegistry'' ''signature'' ''sirius'') = Inl Time_has_elapsed \<and>
   fst (submitStar True fake_SHA256 fake_stringify (\<lambda>m a s. True) 900000 900000
          (Blockchain True fake_SHA256 fake_stringify 1000000)
          ''abc'' ''abc:1000:starRegistry'' ''signature'' ''sirius'') \<noteq> Inl Time_has_elapsed"
proof -
  note a = submitStar_window[OF message_time currentTime_seconds[of 1300000, simplified],
      of True fake_SHA256 fake_stringify "\<lambda>m a s. True" 1300000
         "Blockchain True fake_SHA256 fake_stringify 1000000" "''abc''" "''signature''" "''sirius''"]
  note b = submitStar_window[OF message_time currentTime_seconds[of 1301000, simplified],
      of True fake_SHA256 fake_stringify "\<lambda>m a s. True" 1301000
         "Blockchain True fake_SHA256 fake_stringify 1000000" "''abc''" "''signature''" "''sirius''"]
  note c = submitStar_window[OF message_time currentTime_seconds[of 900000, simplified],
      of True fake_SHA256 fake_stringify "\<lambda>m a s. True" 900000
         "Blockchain True fake_SHA256 fake_stringify 1000000" "''abc''" "''signature''" "''sirius''"]
  from a have a': "fst (submitStar True fake_SHA256 fake_stringify (\<lambda>m a s. True) 1300000 1300000
          (Blockchain True fake_SHA256 fake_stringify 1000000)
          ''abc'' ''abc:1000:starRegistry'' ''signature'' ''sirius'') \<noteq> Inl Time_has_elapsed"
    by simp
  from b have b': "fst (submitStar True fake_SHA256 fake_stringify (\<lambda>m a s. True) 1301000 1301000
          (Blockchain True fake_SHA256 fake_stringify 1000000)
          ''abc'' ''abc:1000:starRegistry'' ''signature'' ''sirius'') = Inl Time_has_elapsed"
    by simp
  from c have c': "fst (submitStar True fake_SHA256 fake_stringify (\<lambda>m a s. True) 900000 900000
          (Blockchain True fake_SHA256 fake_stringify 1000000)
          ''abc'' ''abc:1000:starRegistry'' ''signature'' ''sirius'') \<noteq> Inl Time_has_elapsed"
    by simp
  from message_time currentTime_seconds[of 1300000, simplified]
    currentTime_seconds[of 1301000, simplified] currentTime_seconds[of 900000, simplified]
    a' b' c' show ?thesis
    by (intro conjI)
qed

text \<open>
  A run of the whole workflow: the challenge for \<^verbatim>\<open>abc\<close> is issued at second 1000 and
  submitted at second 1100 with a signature that verifies. The promise resolves with the
  new block, which has height 1 and owner \<^verbatim>\<open>abc\<close> and is the last entry of the chain.
\<close>

lemma issued_message:
  "requestMessageOwnershipVerification 1000000 ''abc'' = ''abc:1000:starRegistry''"
  by (simp add: requestMessageOwnershipVerification_def timestamp_1000)

lemma submit_in_window:
  "(let bc = Blockchain True fake_SHA256 fake_stringify 1000000;
        message = requestMessageOwnershipVerification 1000000 ''abc'';
        (outcome, bc1) = submitStar True fake_SHA256 fake_stringify (\<lambda>m a s. True) 1100000 1100000
                           bc ''abc'' message signature star
    in \<exists>b. outcome = Inr (Some b) \<and> block.height b = 1 \<and> owner b = Some ''abc'' \<and>
           body b = Star star \<and> chain bc1 = chain bc @ [Some b] \<and> blockchain.height bc1 = 1)"
proof -
  let ?bc = "Blockchain True fake_SHA256 fake_stringify 1000000"
  let ?block = "(Block (Star star))\<lparr>owner := Some ''abc''\<rparr>"
  have le: "(1000 :: int) \<le> 1100000" by simp
  have a: "addBlock True fake_SHA256 fake_stringify 1100000 ?bc ?block =
             (Some (sealBlock fake_SHA256 fake_stringify (chain ?bc) 1100000 ?block),
              ?bc\<lparr>chain := chain ?bc @ [Some (sealBlock fake_SHA256 fake_stringify (chain ?bc) 1100000 ?block)],
                   height := 1\<rparr>)"
    by (simp add: addBlock_unflagged[OF validateChain_Blockchain] Let_def
        isBlockValid_sealed[OF fake_SHA256_length le] Blockchain_length)
  have o: "fst (submitStar True fake_SHA256 fake_stringify (\<lambda>m a s. True) 1100000 1100000
                           ?bc ''abc'' ''abc:1000:starRegistry'' signature star) =
           Inr (Some (sealBlock fake_SHA256 fake_stringify (chain ?bc) 1100000 ?block))"
    by (simp add: submitStar_outcome message_time currentTime_seconds js_gt_def js_minus_def a
        del: split.simps)
  have s: "snd (submitStar True fake_SHA256 fake_stringify (\<lambda>m a s. True) 1100000 1100000
                           ?bc ''abc'' ''abc:1000:starRegistry'' signature star) =
           ?bc\<lparr>chain := chain ?bc @ [Some (sealBlock fake_SHA256 fake_stringify (chain ?bc) 1100000 ?block)],
                   height := 1\<rparr>"
    by (simp add: submitStar_state a)
  show ?thesis
    using o s
    by (simp add: issued_message Let_def split: prod.splits)
       (auto simp: sealBlock_height sealBlock_owner Blockchain_length sealBlock_def Block_def Let_def)
qed

lemma wallet_message:
  "requestMessageOwnershipVerification 1000000 ''1A1zP1eP5QGefi2DMPTfTL5SLmv7DivfNa'' =
     ''1A1zP1eP5QGefi2DMPTfTL5SLmv7DivfNa:1000:starRegistry''"
  by (simp add: requestMessageOwnershipVerification_def timestamp_1000)

lemma wallet_message_time:
  "parseInt (at_index (split CHR '':'' ''1A1zP1eP5QGefi2DMPTfTL5SLmv7DivfNa:1000:starRegistry'') 1) =
     Some 1000"
  by (simp add: parse_simps)

text \<open>
  Claim C1. The claim asks that a submission that fails leaves the chain as it was. On
  the chain of a new Blockchain, the challenge issued at second 1000 and submitted at
  second 1400 is rejected with \<^verbatim>\<open>'Time has elapsed'\<close>, whatever the signature check
  says, and the same challenge submitted at second 1100 with a signature that does not
  verify is rejected with \<^verbatim>\<open>'Message is invalid'\<close>. In both runs the executor goes on
  after \<^verbatim>\<open>reject\<close>: the block of the submitter is sealed and pushed, and the chain
  has two entries where it had one.
\<close>

theorem submitStar_rejects_and_appends:
  "(let bc = Blockchain settled fake_SHA256 fake_stringify 1000000;
        address = ''1A1zP1eP5QGefi2DMPTfTL5SLmv7DivfNa'';
        message = requestMessageOwnershipVerification 1000000 address;
        (late, bc1) = submitStar settled fake_SHA256 fake_stringify verify 1400000 1400000
                        bc address message signature star;
        (forged, bc2) = submitStar settled fake_SHA256 fake_stringify (\<lambda>m a s. False) 1100000 1100000
                          bc address message signature star
    in length (chain bc) = 1 \<and>
       late = Inl Time_has_elapsed \<and>
       length (chain bc1) = 2 \<and> blockchain.height bc1 = 1 \<and>
       (\<exists>b. chain bc1 = chain bc @ [Some b] \<and> owner b = Some address \<and> body b = Star star) \<and>
       forged = Inl Message_is_invalid \<and>
       length (chain bc2) = 2 \<and> blockchain.height bc2 = 1 \<and>
       (\<exists>b. chain bc2 = chain bc @ [Some b] \<and> owner b = Some address \<and> body b = Star star))"
proof -
  let ?bc = "Blockchain settled fake_SHA256 fake_stringify 1000000"
  let ?a = "''1A1zP1eP5QGefi2DMPTfTL5SLmv7DivfNa''"
  let ?m = "''1A1zP1eP5QGefi2DMPTfTL5SLmv7DivfNa:1000:starRegistry''"
  let ?block = "(Block (Star star))\<lparr>owner := Some ?a\<rparr>"
  have l1: "(1000 :: int) \<le> 1400000" and l2: "(1000 :: int) \<le> 1100000" by simp_all
  note a1 = addBlock_on_Blockchain_sealed[OF fake_SHA256_length l1, of settled fake_stringify 1000000 ?block]
  note a2 = addBlock_on_Blockchain_sealed[OF fake_SHA256_length l2, of settled fake_stringify 1000000 ?block]
  have o1: "fst (submitStar settled fake_SHA256 fake_stringify verify 1400000 1400000
                   ?bc ?a ?m signature star) = Inl Time_has_elapsed"
    by (simp add: submitStar_outcome wallet_message_time currentTime_seconds js_gt_def js_minus_def
        del: split.simps)
  have o2: "fst (submitStar settled fake_SHA256 fake_stringify (\<lambda>m a s. False) 1100000 1100000
                   ?bc ?a ?m signature star) = Inl Message_is_invalid"
    by (simp add: submitStar_outcome wallet_message_time currentTime_seconds js_gt_def js_minus_def
        del: split.simps)
  have s1: "snd (submitStar settled fake_SHA256 fake_stringify verify 1400000 1400000
                   ?bc ?a ?m signature star) =
            ?bc\<lparr>chain := chain ?bc @ [Some (sealBlock fake_SHA256 fake_stringify (chain ?bc) 1400000 ?block)],
                 height := 1\<rparr>"
    by (simp add: submitStar_state a1)
  have s2: "snd (submitStar settled fake_SHA256 fake_stringify (\<lambda>m a s. False) 1100000 1100000
                   ?bc ?a ?m signature star) =
            ?bc\<lparr>chain := chain ?bc @ [Some (sealBlock fake_SHA256 fake_stringify (chain ?bc) 1100000 ?block)],
                 height := 1\<rparr>"
    by (simp add: submitStar_state a2)
  have f: "owner (sealBlock fake_SHA256 fake_stringify c now ?block) = Some ?a \<and>
           body (sealBlock fake_SHA256 fake_stringify c now ?block) = Star star" for c now
    by (simp add: sealBlock_def Block_def Let_def)
  have p1: "submitStar settled fake_SHA256 fake_stringify verify 1400000 1400000
               ?bc ?a ?m signature star =
             (Inl Time_has_elapsed,
              ?bc\<lparr>chain := chain ?bc @ [Some (sealBlock fake_SHA256 fake_stringify (chain ?bc) 1400000 ?block)],
                   height := 1\<rparr>)"
    using o1 s1 by (simp add: prod_eq_iff)
  have p2: "submitStar settled fake_SHA256 fake_stringify (\<lambda>m a s. False) 1100000 1100000
               ?bc ?a ?m signature star =
             (Inl Message_is_invalid,
              ?bc\<lparr>chain := chain ?bc @ [Some (sealBlock fake_SHA256 fake_stringify (chain ?bc) 1100000 ?block)],
                   height := 1\<rparr>)"
    using o2 s2 by (simp add: prod_eq_iff)
  show ?thesis
    by (simp add: wallet_message Let_def p1 p2 Blockchain_length f)
qed

section \<open>getStarsByWalletAddress\<close>

lemma blocks_of_all_blocks:
  assumes "None \<notin> set c"
  shows "blocks_of c = map the c"
  using assms unfolding blocks_of_def
proof (induction c)
  case Nil
  show ?case by simp
next
  case (Cons a c)
  then show ?case by (cases a) simp_all
qed

lemma blocks_of_member:
  assumes "None \<notin> set c"
  shows "b \<in> set (blocks_of c) \<longleftrightarrow> Some b \<in> set c"
proof
  assume "b \<in> set (blocks_of c)"
  then obtain x where x: "x \<in> set c" "b = the x"
    by (auto simp: blocks_of_all_blocks[OF assms])
  have "x \<noteq> None"
  proof
    assume "x = None"
    with x(1) assms show False by simp
  qed
  then obtain y where "x = Some y" by (cases x) simp_all
  with x show "Some b \<in> set c" by simp
next
  assume "Some b \<in> set c"
  then have "the (Some b) \<in> the ` set c" by (rule imageI)
  then show "b \<in> set (blocks_of c)" by (simp add: blocks_of_all_blocks[OF assms])
qed

lemma blocks_of_sorted:
  assumes n: "None \<notin> set c"
    and h: "\<forall>i<length c. \<forall>b. c ! i = Some b \<longrightarrow> block.height b = int i"
  shows "sorted_wrt (<) (map block.height (blocks_of c))"
proof -
  have "block.height (the (c ! i)) = int i" if i: "i < length c" for i
  proof -
    from i n have "c ! i \<noteq> None" by (metis nth_mem)
    then obtain b where b: "c ! i = Some b" by (cases "c ! i") simp_all
    with h i show ?thesis by simp
  qed
  then show ?thesis
    by (simp add: blocks_of_all_blocks[OF n] sorted_wrt_iff_nth_less)
qed

lemma chain_invariants_blocks:
  assumes "chain_invariants c"
  shows "None \<notin> set c"
    and "\<forall>i<length c. \<forall>b. c ! i = Some b \<longrightarrow> block.height b = int i"
    and "\<forall>g. c ! 0 = Some g \<longrightarrow> owner g = None"
proof -
  show "None \<notin> set c"
  proof
    assume "None \<in> set c"
    then obtain i where "i < length c" "c ! i = None" by (auto simp: in_set_conv_nth)
    with chain_invariants_nth[OF assms, of i] show False by auto
  qed
  show "\<forall>i<length c. \<forall>b. c ! i = Some b \<longrightarrow> block.height b = int i"
  proof (intro allI impI)
    fix i b assume i: "i < length c" and b: "c ! i = Some b"
    from chain_invariants_nth[OF assms i] b show "block.height b = int i" by auto
  qed
  have "0 < length c" using assms by (simp add: chain_invariants_def)
  from chain_invariants_nth[OF assms this]
  show "\<forall>g. c ! 0 = Some g \<longrightarrow> owner g = None" by auto
qed

text \<open>
  Claim C8. On a chain whose entries are all blocks, each with its index as height, and
  whose first block has no owner (by \<open>chain_invariants_blocks\<close> every chain that meets
  the invariants of the data model), \<^verbatim>\<open>getStarsByWalletAddress\<close> resolves with the
  decoded payloads of exactly the blocks whose owner is the address, each paired with
  that address as its owner, in ascending height; the genesis block is never among them,
  and with no matching block the result is the empty list, not an error.
\<close>

theorem getStarsByWalletAddress_by_owner:
  assumes blocks: "None \<notin> set (chain bc)"
    and heights: "\<forall>i<length (chain bc). \<forall>b. chain bc ! i = Some b \<longrightarrow> block.height b = int i"
    and genesis: "\<forall>g. chain bc ! 0 = Some g \<longrightarrow> owner g = None"
  shows "\<exists>blocks.
           getStarsByWalletAddress bc address = Inr (map (\<lambda>b. (getBData b, address)) blocks) \<and>
           blocks = filter (\<lambda>b. owner b = Some address) (blocks_of (chain bc)) \<and>
           (\<forall>b. b \<in> set blocks \<longleftrightarrow> Some b \<in> set (chain bc) \<and> owner b = Some address) \<and>
           sorted_wrt (<) (map block.height blocks) \<and>
           (\<forall>g. chain bc ! 0 = Some g \<longrightarrow> g \<notin> set blocks) \<and>
           ((\<forall>b. Some b \<in> set (chain bc) \<longrightarrow> owner b \<noteq> Some address) \<longrightarrow>
              getStarsByWalletAddress bc address = Inr [])"
proof -
  let ?blocks = "filter (\<lambda>b. owner b = Some address) (blocks_of (chain bc))"
  note mem = blocks_of_member[OF blocks]
  have r: "getStarsByWalletAddress bc address = Inr (map (\<lambda>b. (getBData b, address)) ?blocks)"
    using blocks by (simp add: getStarsByWalletAddress_def Let_def comp_def)
  have s: "sorted_wrt (<) (map block.height ?blocks)"
    using blocks_of_sorted[OF blocks heights] by (simp add: sorted_wrt_map sorted_wrt_filter)
  have g: "\<forall>g. chain bc ! 0 = Some g \<longrightarrow> g \<notin> set ?blocks"
    using genesis by auto
  have e: "(\<forall>b. Some b \<in> set (chain bc) \<longrightarrow> owner b \<noteq> Some address) \<longrightarrow>
              getStarsByWalletAddress bc address = Inr []"
    using r mem by (auto simp: filter_empty_conv)
  from r s g e mem show ?thesis
    by (intro exI[of _ ?blocks]) simp
qed

theorem getStarsByWalletAddress_by_owner_witness:
  "getStarsByWalletAddress
     \<lparr>chain = [Some \<lparr>hash = Some ''g'', block.height = 0, body = Data ''Genesis Block'', time = ''1000'',
            previousBlockHash = None, owner = None\<rparr>,
      Some \<lparr>hash = Some ''h'', block.height = 1, body = Star ''sirius'', time = ''1300'',
            previousBlockHash = Some ''g'', owner = Some ''abc''\<rparr>], height = 1\<rparr> ''abc'' =
     Inr [(Star ''sirius'', ''abc'')] \<and>
   getStarsByWalletAddress
     \<lparr>chain = [Some \<lparr>hash = Some ''g'', block.height = 0, body = Data ''Genesis Block'', time = ''1000'',
            previousBlockHash = None, owner = None\<rparr>,
      Some \<lparr>hash = Some ''h'', block.height = 1, body = Star ''sirius'', time = ''1300'',
            previousBlockHash = Some ''g'', owner = Some ''abc''\<rparr>], height = 1\<rparr> ''xyz'' = Inr []"
proof -
  let ?c = "[Some \<lparr>hash = Some ''g'', block.height = 0, body = Data ''Genesis Block'', time = ''1000'',
            previousBlockHash = None, owner = None\<rparr>,
      Some \<lparr>hash = Some ''h'', block.height = 1, body = Star ''sirius'', time = ''1300'',
            previousBlockHash = Some ''g'', owner = Some ''abc''\<rparr>]"
  let ?bc = "\<lparr>chain = ?c, height = 1\<rparr>"
  have inv: "chain_invariants (chain ?bc)"
    by (simp add: chain_invariants_def lessThan_Suc)
  note h = chain_invariants_blocks[OF inv]
  from getStarsByWalletAddress_by_owner[OF h, of "''abc''"]
  have a: "getStarsByWalletAddress ?bc ''abc'' = Inr [(Star ''sirius'', ''abc'')]"
    by (simp add: blocks_of_def getBData_def)
  from getStarsByWalletAddress_by_owner[OF h, of "''xyz''"]
  have b: "getStarsByWalletAddress ?bc ''xyz'' = Inr []"
    by (simp add: blocks_of_def)
  from a b show ?thesis by simp
qed

end
